theory Spec2Isabelle
  imports Main "HOL-Library.Word" "HOL-Library.Sublist"
begin

unbundle bit_operations_syntax

section \<open>JavaScript values\<close>

text \<open>
  The operations of \<^verbatim>\<open>src/video/resources/liveStreams.ts\<close> test their arguments for
  truthiness, read one property (\<^verbatim>\<open>params.url\<close>), interpolate identifiers into a
  template literal and hand everything else to the HTTP client untouched. The values a
  caller can pass are modelled as far as those four things can tell them apart.

  A parameter declared \<^verbatim>\<open>string\<close> receives a string, or nothing at all
  (\<^verbatim>\<open>undefined\<close>), or \<^verbatim>\<open>null\<close>.
\<close>

datatype strarg = Undefined | Null | Str string

text \<open>
  A parameters object is an arbitrary JavaScript value. A number is kept as the 64 bits of
  its IEEE 754 encoding, so that no arithmetic on it is needed: the code only ever asks
  whether it is truthy.
\<close>

datatype jsval =
    JUndefined
  | JNull
  | JBool bool
  | JNumber "64 word"
  | JString string
  | JArray "jsval list"
  | JObject "(string \<times> jsval) list"

text \<open>\<^verbatim>\<open>!x\<close> is \<open>\<not> truthy x\<close>. The falsy values are \<^verbatim>\<open>undefined\<close>, \<^verbatim>\<open>null\<close>,
  \<^verbatim>\<open>false\<close>, \<^verbatim>\<open>+0\<close>, \<^verbatim>\<open>-0\<close>, \<^verbatim>\<open>NaN\<close> and the empty string.\<close>

fun truthy_str :: "strarg \<Rightarrow> bool" where
  "truthy_str Undefined = False"
| "truthy_str Null = False"
| "truthy_str (Str s) = (s \<noteq> [])"

definition truthy_number :: "64 word \<Rightarrow> bool" where
  "truthy_number w =
     (let m = w AND 0x7FFFFFFFFFFFFFFF
      in m \<noteq> 0 \<and> m \<le> 0x7FF0000000000000)"

fun truthy :: "jsval \<Rightarrow> bool" where
  "truthy JUndefined = False"
| "truthy JNull = False"
| "truthy (JBool b) = b"
| "truthy (JNumber w) = truthy_number w"
| "truthy (JString s) = (s \<noteq> [])"
| "truthy (JArray xs) = True"
| "truthy (JObject fs) = True"

text \<open>
  \<^verbatim>\<open>x.k\<close> for a key \<open>k\<close> that no prototype defines: the own property of an object, and
  \<^verbatim>\<open>undefined\<close> on a primitive or an array. On \<^verbatim>\<open>undefined\<close> and \<^verbatim>\<open>null\<close>
  JavaScript raises a TypeError; the only property read of the source,
  \<^verbatim>\<open>params && params.url\<close>, is behind \<^verbatim>\<open>&&\<close> and never gets there.
\<close>

fun property :: "jsval \<Rightarrow> string \<Rightarrow> jsval" where
  "property (JObject fs) k = (case map_of fs k of Some v \<Rightarrow> v | None \<Rightarrow> JUndefined)"
| "property v k = JUndefined"

text \<open>A string parameter inside a template literal, \<^verbatim>\<open>`${x}`\<close>.\<close>

fun template :: "strarg \<Rightarrow> string" where
  "template Undefined = ''undefined''"
| "template Null = ''null''"
| "template (Str s) = s"

section \<open>The HTTP client and promises\<close>

text \<open>
  \<^verbatim>\<open>Base\<close> (\<^verbatim>\<open>src/base.ts\<close>, not among the sources) holds the HTTP client in its
  field \<^verbatim>\<open>http\<close>; the client is a parameter of the model. It has one method per verb,
  taking a path and the remaining positional arguments, and it may do anything to the
  world behind it (\<open>'w\<close>). A promise is identified with how it settles.
\<close>

datatype verb = GET | POST | PATCH | PUT | DELETE

datatype 'x reason = Error string | Reason 'x

datatype ('a, 'x) promise = Pending | Fulfilled 'a | Rejected "'x reason"

type_synonym ('w, 'a, 'x) http_client =
  "verb \<Rightarrow> string \<Rightarrow> jsval list \<Rightarrow> 'w \<Rightarrow> ('a, 'x) promise \<times> 'w"

record ('w, 'a, 'x) Base =
  http :: "('w, 'a, 'x) http_client"

type_synonym ('w, 'a, 'x) LiveStreams = "('w, 'a, 'x) Base"

text \<open>The state a method runs in: the object it is called on and the world outside.\<close>

record ('w, 'a, 'x) state =
  this :: "('w, 'a, 'x) LiveStreams"
  world :: 'w

type_synonym ('w, 'a, 'x) action =
  "('w, 'a, 'x) state \<Rightarrow> ('a, 'x) promise \<times> ('w, 'a, 'x) state"

text \<open>\<^verbatim>\<open>return Promise.reject(new Error(msg))\<close>, and \<^verbatim>\<open>throw new Error(msg)\<close> in an
  \<^verbatim>\<open>async\<close> method: a promise rejected with that error, and nothing else happens.\<close>

definition reject :: "string \<Rightarrow> ('w, 'a, 'x) action" where
  "reject msg \<sigma> = (Rejected (Error msg), \<sigma>)"

text \<open>\<^verbatim>\<open>return this.http.verb(path, ...args)\<close>: the client found in \<^verbatim>\<open>this.http\<close> is
  called once, and its promise is the method's.\<close>

definition request :: "verb \<Rightarrow> string \<Rightarrow> jsval list \<Rightarrow> ('w, 'a, 'x) action" where
  "request v p as \<sigma> =
     (case http (this \<sigma>) v p as (world \<sigma>) of (r, w) \<Rightarrow> (r, \<sigma>\<lparr>world := w\<rparr>))"

section \<open>Live streams\<close>

definition PATH :: string where
  "PATH = ''/video/v1/live-streams''"

definition buildBasePath :: "strarg \<Rightarrow> string" where
  "buildBasePath liveStreamId = PATH @ ''/'' @ template liveStreamId"

definition create :: "jsval \<Rightarrow> ('w, 'a, 'x) action" where
  "create params = request POST PATH [params]"

definition update :: "strarg \<Rightarrow> jsval \<Rightarrow> ('w, 'a, 'x) action" where
  "update liveStreamId params =
     (if \<not> truthy_str liveStreamId \<or> \<not> truthy params
      then reject ''assetId and params are required.''
      else request PATCH (buildBasePath liveStreamId) [params])"

definition del :: "strarg \<Rightarrow> ('w, 'a, 'x) action" where
  "del liveStreamId =
     (if \<not> truthy_str liveStreamId
      then reject ''A live stream ID is required to delete a live stream''
      else request DELETE (buildBasePath liveStreamId) [])"

definition get :: "strarg \<Rightarrow> ('w, 'a, 'x) action" where
  "get liveStreamId =
     (if \<not> truthy_str liveStreamId
      then reject ''A live stream ID is required to get a live stream''
      else request GET (buildBasePath liveStreamId) [])"

definition list :: "jsval \<Rightarrow> ('w, 'a, 'x) action" where
  "list params = request GET PATH [JObject [(''params'', params)]]"

definition signalComplete :: "strarg \<Rightarrow> ('w, 'a, 'x) action" where
  "signalComplete liveStreamId =
     (if \<not> truthy_str liveStreamId
      then reject ''A live stream ID is required to signal a stream is complete''
      else request PUT (buildBasePath liveStreamId @ ''/complete'') [])"

definition resetStreamKey :: "strarg \<Rightarrow> ('w, 'a, 'x) action" where
  "resetStreamKey liveStreamId =
     (if \<not> truthy_str liveStreamId
      then reject ''A live stream ID is required to reset a live stream key''
      else request POST (buildBasePath liveStreamId @ ''/reset-stream-key'') [])"

definition createPlaybackId :: "strarg \<Rightarrow> jsval \<Rightarrow> ('w, 'a, 'x) action" where
  "createPlaybackId liveStreamId params =
     (if \<not> truthy_str liveStreamId
      then reject ''A live stream ID is required to create a live stream playback ID''
      else if \<not> truthy params
      then reject ''A playback policy is required to create a live stream playback ID''
      else request POST (buildBasePath liveStreamId @ ''/playback-ids'') [params])"

definition deletePlaybackId :: "strarg \<Rightarrow> strarg \<Rightarrow> ('w, 'a, 'x) action" where
  "deletePlaybackId liveStreamId playbackId =
     (if \<not> truthy_str liveStreamId
      then reject ''A live stream ID is required to delete a live stream playback ID''
      else if \<not> truthy_str playbackId
      then reject
        ''A live stream playback ID is required to delete a live stream playback ID''
      else request DELETE
        (buildBasePath liveStreamId @ ''/playback-ids/'' @ template playbackId) [])"

definition playbackId :: "strarg \<Rightarrow> strarg \<Rightarrow> ('w, 'a, 'x) action" where
  "playbackId liveStreamId playbackId' =
     (if \<not> truthy_str liveStreamId
      then reject ''A live stream ID is required''
      else if \<not> truthy_str playbackId'
      then reject ''A playback ID is required''
      else request GET
        (buildBasePath liveStreamId @ ''/playback-ids/'' @ template playbackId') [])"

definition createSimulcastTarget :: "strarg \<Rightarrow> jsval \<Rightarrow> ('w, 'a, 'x) action" where
  "createSimulcastTarget liveStreamId params =
     (if \<not> truthy_str liveStreamId
      then reject ''A live stream ID is required to create a simulcast target''
      else if \<not> (truthy params \<and> truthy (property params ''url''))
      then reject ''A url is required to create a simulcast target''
      else request POST (buildBasePath liveStreamId @ ''/simulcast-targets'') [params])"

definition getSimulcastTarget :: "strarg \<Rightarrow> strarg \<Rightarrow> ('w, 'a, 'x) action" where
  "getSimulcastTarget liveStreamId simulcastTargetId =
     (if \<not> truthy_str liveStreamId
      then reject ''A live stream ID is required to get a simulcast target''
      else if \<not> truthy_str simulcastTargetId
      then reject ''A simulcast target ID is required to get a simulcast target''
      else request GET
        (buildBasePath liveStreamId @ ''/simulcast-targets/'' @ template simulcastTargetId)
        [])"

definition deleteSimulcastTarget :: "strarg \<Rightarrow> strarg \<Rightarrow> ('w, 'a, 'x) action" where
  "deleteSimulcastTarget liveStreamId simulcastTargetId =
     (if \<not> truthy_str liveStreamId
      then reject ''A live stream ID is required to delete a simulcast target''
      else if \<not> truthy_str simulcastTargetId
      then reject ''A simulcast target ID is required to delete a simulcast target''
      else request DELETE
        (buildBasePath liveStreamId @ ''/simulcast-targets/'' @ template simulcastTargetId)
        [])"

definition updateEmbeddedSubtitles :: "strarg \<Rightarrow> jsval \<Rightarrow> ('w, 'a, 'x) action" where
  "updateEmbeddedSubtitles liveStreamId params =
     (if \<not> truthy_str liveStreamId \<or> \<not> truthy params
      then reject ''liveStreamId and params are required.''
      else request PUT (buildBasePath liveStreamId @ ''/embedded-subtitles'') [params])"

definition disable :: "strarg \<Rightarrow> ('w, 'a, 'x) action" where
  "disable liveStreamId =
     (if \<not> truthy_str liveStreamId
      then reject ''A live stream ID is required to disable a live stream''
      else request PUT (buildBasePath liveStreamId @ ''/disable'') [])"

definition enable :: "strarg \<Rightarrow> ('w, 'a, 'x) action" where
  "enable liveStreamId =
     (if \<not> truthy_str liveStreamId
      then reject ''A live stream ID is required to enable a live stream''
      else request PUT (buildBasePath liveStreamId @ ''/enable'') [])"

section \<open>Calling an operation by name\<close>

text \<open>One constructor per public method of \<^verbatim>\<open>LiveStreams\<close>, with its arguments, so that
  a statement can speak of every operation.\<close>

datatype operation =
    Create jsval
  | Update strarg jsval
  | Del strarg
  | Get strarg
  | List jsval
  | SignalComplete strarg
  | ResetStreamKey strarg
  | CreatePlaybackId strarg jsval
  | DeletePlaybackId strarg strarg
  | PlaybackId strarg strarg
  | CreateSimulcastTarget strarg jsval
  | GetSimulcastTarget strarg strarg
  | DeleteSimulcastTarget strarg strarg
  | UpdateEmbeddedSubtitles strarg jsval
  | Disable strarg
  | Enable strarg

fun invoke :: "operation \<Rightarrow> ('w, 'a, 'x) action" where
  "invoke (Create params) = create params"
| "invoke (Update liveStreamId params) = update liveStreamId params"
| "invoke (Del liveStreamId) = del liveStreamId"
| "invoke (Get liveStreamId) = get liveStreamId"
| "invoke (List params) = list params"
| "invoke (SignalComplete liveStreamId) = signalComplete liveStreamId"
| "invoke (ResetStreamKey liveStreamId) = resetStreamKey liveStreamId"
| "invoke (CreatePlaybackId liveStreamId params) = createPlaybackId liveStreamId params"
| "invoke (DeletePlaybackId liveStreamId pid) = deletePlaybackId liveStreamId pid"
| "invoke (PlaybackId liveStreamId pid) = playbackId liveStreamId pid"
| "invoke (CreateSimulcastTarget liveStreamId params) =
     createSimulcastTarget liveStreamId params"
| "invoke (GetSimulcastTarget liveStreamId tid) = getSimulcastTarget liveStreamId tid"
| "invoke (DeleteSimulcastTarget liveStreamId tid) = deleteSimulcastTarget liveStreamId tid"
| "invoke (UpdateEmbeddedSubtitles liveStreamId params) =
     updateEmbeddedSubtitles liveStreamId params"
| "invoke (Disable liveStreamId) = disable liveStreamId"
| "invoke (Enable liveStreamId) = enable liveStreamId"

section \<open>Observing the HTTP client\<close>

text \<open>
  To count requests, the client is wrapped in a spy that appends every call it receives
  (verb, path, remaining arguments) to a log kept beside the world, and otherwise behaves
  as the client it wraps. \<open>observe m h w\<close> runs the method \<open>m\<close> on an object whose
  \<^verbatim>\<open>http\<close> is the spy around \<open>h\<close>, from the empty log and the world \<open>w\<close>, and returns the
  promise, the log and the world afterwards.
\<close>

type_synonym call = "verb \<times> string \<times> jsval list"

definition spy :: "('w, 'a, 'x) http_client \<Rightarrow> (call list \<times> 'w, 'a, 'x) http_client" where
  "spy h v p as = (\<lambda>(log, w).
     case h v p as w of (r, w') \<Rightarrow> (r, (log @ [(v, p, as)], w')))"

definition observe ::
  "(call list \<times> 'w, 'a, 'x) action \<Rightarrow> ('w, 'a, 'x) http_client \<Rightarrow> 'w
     \<Rightarrow> ('a, 'x) promise \<times> call list \<times> 'w" where
  "observe m h w =
     (case m \<lparr>this = \<lparr>http = spy h\<rparr>, world = ([], w)\<rparr> of (r, \<sigma>) \<Rightarrow> (r, world \<sigma>))"

definition calls ::
  "(call list \<times> 'w, 'a, 'x) action \<Rightarrow> ('w, 'a, 'x) http_client \<Rightarrow> 'w \<Rightarrow> call list" where
  "calls m h w = fst (snd (observe m h w))"

text \<open>The two observations an operation can give: exactly one request, whose promise is
  returned as the client made it; or a local rejection with a message and no request.\<close>

definition one_request ::
  "verb \<Rightarrow> string \<Rightarrow> jsval list \<Rightarrow> ('w, 'a, 'x) http_client \<Rightarrow> 'w
     \<Rightarrow> ('a, 'x) promise \<times> call list \<times> 'w" where
  "one_request v p as h w = (fst (h v p as w), [(v, p, as)], snd (h v p as w))"

definition no_request :: "string \<Rightarrow> 'w \<Rightarrow> ('a, 'x) promise \<times> call list \<times> 'w" where
  "no_request msg w = (Rejected (Error msg), [], w)"

text \<open>What an operation hands to the client after the path: its \<^verbatim>\<open>params\<close> argument as
  it came (\<^verbatim>\<open>list\<close> puts it in a fresh configuration object, \<^verbatim>\<open>{ params }\<close>), and
  nothing when it has none.\<close>

fun forwarded :: "operation \<Rightarrow> jsval list" where
  "forwarded (Create params) = [params]"
| "forwarded (Update liveStreamId params) = [params]"
| "forwarded (List params) = [JObject [(''params'', params)]]"
| "forwarded (CreatePlaybackId liveStreamId params) = [params]"
| "forwarded (CreateSimulcastTarget liveStreamId params) = [params]"
| "forwarded (UpdateEmbeddedSubtitles liveStreamId params) = [params]"
| "forwarded opn = []"

text \<open>A client to run examples against: it fulfils every request with the path it was
  given and counts the requests it has served.\<close>

definition echo :: "(nat, string, unit) http_client" where
  "echo v p as n = (Fulfilled p, Suc n)"

text \<open>A client that refuses every request.\<close>

definition refuse :: "(nat, string, unit) http_client" where
  "refuse v p as n = (Rejected (Error ''Network Error''), Suc n)"

section \<open>Basic facts\<close>

lemma observe_reject: "observe (reject msg) h w = no_request msg w"
  by (simp add: observe_def reject_def no_request_def)

lemma observe_request: "observe (request v p as) h w = one_request v p as h w"
  by (simp add: observe_def request_def one_request_def spy_def split: prod.split)

lemma this_reject: "this (snd (reject msg \<sigma>)) = this \<sigma>"
  by (simp add: reject_def)

lemma this_request: "this (snd (request v p as \<sigma>)) = this \<sigma>"
  by (simp add: request_def split: prod.split)

lemma calls_reject: "calls (reject msg) h w = []"
  by (simp add: calls_def observe_reject no_request_def)

lemma calls_request: "calls (request v p as) h w = [(v, p, as)]"
  by (simp add: calls_def observe_request one_request_def)

lemmas operation_defs =
  create_def update_def del_def get_def list_def signalComplete_def resetStreamKey_def
  createPlaybackId_def deletePlaybackId_def playbackId_def createSimulcastTarget_def
  getSimulcastTarget_def deleteSimulcastTarget_def updateEmbeddedSubtitles_def
  disable_def enable_def

lemma falsy_str: "\<not> truthy_str i \<longleftrightarrow> i = Undefined \<or> i = Null \<or> i = Str []"
  by (cases i) simp_all

section \<open>Operations without validation\<close>

text \<open>
  C8. \<^verbatim>\<open>create\<close> and \<^verbatim>\<open>list\<close> validate nothing: whatever value is passed as
  \<^verbatim>\<open>params\<close> (missing, null, an empty object, anything else), \<^verbatim>\<open>create\<close> issues exactly
  one POST to \<^verbatim>\<open>/video/v1/live-streams\<close> and \<^verbatim>\<open>list\<close> exactly one GET to the same path,
  and the promise returned is the client's, so neither rejects on its own.
\<close>

theorem create_list_always_request:
  "observe (create params) h w = one_request POST ''/video/v1/live-streams'' [params] h w
   \<and> observe (list params) h w
       = one_request GET ''/video/v1/live-streams'' [JObject [(''params'', params)]] h w"
  by (simp add: create_def list_def observe_request PATH_def)

theorem create_list_always_request_witness:
  "observe (create JUndefined) echo 0
     = (Fulfilled ''/video/v1/live-streams'', [(POST, ''/video/v1/live-streams'', [JUndefined])], 1)
   \<and> observe (list JNull) refuse 0
     = (Rejected (Error ''Network Error''),
        [(GET, ''/video/v1/live-streams'', [JObject [(''params'', JNull)]])], 1)"
  using create_list_always_request [where params = JUndefined and h = echo and w = 0]
    create_list_always_request [where params = JNull and h = refuse and w = 0]
  by (simp add: one_request_def echo_def refuse_def)

section \<open>Missing identifiers\<close>

text \<open>
  C1. Each of the fourteen operations that take a live stream identifier, called with an
  identifier that is missing (\<^verbatim>\<open>undefined\<close>, \<^verbatim>\<open>null\<close>) or empty, returns a promise
  rejected with the error message the source gives for that operation, whatever the other
  arguments are; the spying client has recorded no call, and the world is as it was.
\<close>

theorem missing_id_rejected_without_request:
  assumes "i = Undefined \<or> i = Null \<or> i = Str []"
  shows "observe (update i params) h w = no_request ''assetId and params are required.'' w
    \<and> observe (del i) h w
        = no_request ''A live stream ID is required to delete a live stream'' w
    \<and> observe (get i) h w
        = no_request ''A live stream ID is required to get a live stream'' w
    \<and> observe (signalComplete i) h w
        = no_request ''A live stream ID is required to signal a stream is complete'' w
    \<and> observe (resetStreamKey i) h w
        = no_request ''A live stream ID is required to reset a live stream key'' w
    \<and> observe (createPlaybackId i params) h w
        = no_request ''A live stream ID is required to create a live stream playback ID'' w
    \<and> observe (deletePlaybackId i j) h w
        = no_request ''A live stream ID is required to delete a live stream playback ID'' w
    \<and> observe (playbackId i j) h w = no_request ''A live stream ID is required'' w
    \<and> observe (createSimulcastTarget i params) h w
        = no_request ''A live stream ID is required to create a simulcast target'' w
    \<and> observe (getSimulcastTarget i j) h w
        = no_request ''A live stream ID is required to get a simulcast target'' w
    \<and> observe (deleteSimulcastTarget i j) h w
        = no_request ''A live stream ID is required to delete a simulcast target'' w
    \<and> observe (updateEmbeddedSubtitles i params) h w
        = no_request ''liveStreamId and params are required.'' w
    \<and> observe (disable i) h w
        = no_request ''A live stream ID is required to disable a live stream'' w
    \<and> observe (enable i) h w
        = no_request ''A live stream ID is required to enable a live stream'' w"
proof -
  from assms have "\<not> truthy_str i"
    by (simp add: falsy_str)
  then show ?thesis
    by (simp add: operation_defs observe_reject)
qed

theorem missing_id_rejected_without_request_witness:
  "(Undefined = Undefined \<or> Undefined = Null \<or> Undefined = Str [])
   \<and> observe (del Undefined) echo 0
       = (Rejected (Error ''A live stream ID is required to delete a live stream''), [], 0)
   \<and> observe (playbackId Undefined (Str ''p1'')) echo 0
       = (Rejected (Error ''A live stream ID is required''), [], 0)"
  using missing_id_rejected_without_request [where i = Undefined and j = "Str ''p1''"
      and h = echo and w = 0]
  by (simp add: no_request_def)

text \<open>
  C6. \<^verbatim>\<open>update\<close> and \<^verbatim>\<open>updateEmbeddedSubtitles\<close> test both arguments in one condition,
  \<^verbatim>\<open>!liveStreamId || !params\<close>, and throw inside an \<^verbatim>\<open>async\<close> body. With the identifier
  missing or empty, or the parameters object missing, the promise is rejected with the
  operation's message and the client is not called.
\<close>

theorem update_requires_id_and_params:
  assumes "i = Undefined \<or> i = Null \<or> i = Str [] \<or> params = JUndefined \<or> params = JNull"
  shows "observe (update i params) h w = no_request ''assetId and params are required.'' w
    \<and> observe (updateEmbeddedSubtitles i params) h w
        = no_request ''liveStreamId and params are required.'' w"
proof -
  from assms have "\<not> truthy_str i \<or> \<not> truthy params"
    by auto
  then show ?thesis
    by (auto simp add: update_def updateEmbeddedSubtitles_def observe_reject)
qed

theorem update_requires_id_and_params_witness:
  "observe (update (Str ''abc'') JUndefined) echo 0
     = (Rejected (Error ''assetId and params are required.''), [], 0)
   \<and> observe (updateEmbeddedSubtitles Null (JObject [])) echo 0
     = (Rejected (Error ''liveStreamId and params are required.''), [], 0)"
  using update_requires_id_and_params [where i = "Str ''abc''" and params = JUndefined
      and h = echo and w = 0]
    update_requires_id_and_params [where i = Null and params = "JObject []"
      and h = echo and w = 0]
  by (simp add: no_request_def)

text \<open>
  C10. The error of \<^verbatim>\<open>update\<close> is exactly \<^verbatim>\<open>assetId and params are required.\<close>: its
  text begins with \<^verbatim>\<open>assetId\<close>, although the parameter tested is \<^verbatim>\<open>liveStreamId\<close>.
  Nothing else happens: the state is returned as it was.
\<close>

theorem update_error_names_assetId:
  assumes "i = Undefined \<or> i = Null \<or> i = Str [] \<or> params = JUndefined \<or> params = JNull"
  shows "update i params \<sigma> = (Rejected (Error ''assetId and params are required.''), \<sigma>)
    \<and> prefix ''assetId'' ''assetId and params are required.''"
proof -
  from assms have "\<not> truthy_str i \<or> \<not> truthy params"
    by auto
  then show ?thesis
    by (auto simp add: update_def reject_def)
qed

theorem update_error_names_assetId_witness:
  "update Undefined (JObject [(''latency_mode'', JString ''low'')])
       \<lparr>this = \<lparr>http = echo\<rparr>, world = 0\<rparr>
     = (Rejected (Error ''assetId and params are required.''),
        \<lparr>this = \<lparr>http = echo\<rparr>, world = 0\<rparr>)"
  using update_error_names_assetId [where i = Undefined
      and params = "JObject [(''latency_mode'', JString ''low'')]"
      and \<sigma> = "\<lparr>this = \<lparr>http = echo\<rparr>, world = 0\<rparr>"]
  by simp

text \<open>
  C9. The six operations with two arguments test the live stream identifier first. When
  the identifier is missing or empty and the second argument would be refused as well
  (a missing or empty second identifier, a missing parameters object, parameters without
  a url), the rejection carries the message about the live stream identifier and not the
  one about the second argument.
\<close>

theorem id_checked_before_second_argument:
  assumes "\<not> truthy_str i" and "\<not> truthy_str j" and "\<not> truthy params"
    and "\<not> (truthy target \<and> truthy (property target ''url''))"
  shows "fst (createPlaybackId i params \<sigma>)
        = Rejected (Error ''A live stream ID is required to create a live stream playback ID'')
    \<and> fst (createPlaybackId i params \<sigma>)
        \<noteq> Rejected (Error ''A playback policy is required to create a live stream playback ID'')
    \<and> fst (deletePlaybackId i j \<sigma>)
        = Rejected (Error ''A live stream ID is required to delete a live stream playback ID'')
    \<and> fst (deletePlaybackId i j \<sigma>)
        \<noteq> Rejected
            (Error ''A live stream playback ID is required to delete a live stream playback ID'')
    \<and> fst (playbackId i j \<sigma>) = Rejected (Error ''A live stream ID is required'')
    \<and> fst (playbackId i j \<sigma>) \<noteq> Rejected (Error ''A playback ID is required'')
    \<and> fst (createSimulcastTarget i target \<sigma>)
        = Rejected (Error ''A live stream ID is required to create a simulcast target'')
    \<and> fst (createSimulcastTarget i target \<sigma>)
        \<noteq> Rejected (Error ''A url is required to create a simulcast target'')
    \<and> fst (getSimulcastTarget i j \<sigma>)
        = Rejected (Error ''A live stream ID is required to get a simulcast target'')
    \<and> fst (getSimulcastTarget i j \<sigma>)
        \<noteq> Rejected (Error ''A simulcast target ID is required to get a simulcast target'')
    \<and> fst (deleteSimulcastTarget i j \<sigma>)
        = Rejected (Error ''A live stream ID is required to delete a simulcast target'')
    \<and> fst (deleteSimulcastTarget i j \<sigma>)
        \<noteq> Rejected (Error ''A simulcast target ID is required to delete a simulcast target'')"
  using assms by (simp add: operation_defs reject_def)

theorem id_checked_before_second_argument_witness:
  "\<not> truthy_str Undefined \<and> \<not> truthy_str (Str []) \<and> \<not> truthy JNull
   \<and> \<not> (truthy (JObject []) \<and> truthy (property (JObject []) ''url''))
   \<and> fst (deletePlaybackId Undefined (Str []) \<lparr>this = \<lparr>http = echo\<rparr>, world = 0\<rparr>)
       = Rejected (Error ''A live stream ID is required to delete a live stream playback ID'')
   \<and> fst (createSimulcastTarget Undefined (JObject []) \<lparr>this = \<lparr>http = echo\<rparr>, world = 0\<rparr>)
       \<noteq> Rejected (Error ''A url is required to create a simulcast target'')"
  using id_checked_before_second_argument [where i = Undefined and j = "Str []"
      and params = JNull and target = "JObject []"
      and \<sigma> = "\<lparr>this = \<lparr>http = echo\<rparr>, world = 0\<rparr>"]
  by simp

section \<open>Valid arguments\<close>

text \<open>
  C2 as stated fails. Arguments that are present and non-empty do not always lead to a
  request: \<^verbatim>\<open>createSimulcastTarget\<close> with the identifier \<^verbatim>\<open>abc\<close> and the parameters
  \<^verbatim>\<open>{stream_key: 'difvbfgi'}\<close>, which carry no \<^verbatim>\<open>url\<close>, is rejected on the spot and
  the client receives no call.
\<close>

theorem present_params_without_url_counterexample:
  "truthy_str (Str ''abc'') \<and> truthy (JObject [(''stream_key'', JString ''difvbfgi'')])
   \<and> JObject [(''stream_key'', JString ''difvbfgi'')] \<noteq> JObject []
   \<and> observe (createSimulcastTarget (Str ''abc'')
         (JObject [(''stream_key'', JString ''difvbfgi'')])) echo 0
       = (Rejected (Error ''A url is required to create a simulcast target''), [], 0)
   \<and> calls (createSimulcastTarget (Str ''abc'')
         (JObject [(''stream_key'', JString ''difvbfgi'')])) echo 0 = []"
  by (simp add: createSimulcastTarget_def observe_reject calls_reject no_request_def)

text \<open>
  C2, as the code has it. Called with what it requires, every operation makes exactly one
  request, with the verb and path below, and returns the promise of the client as it is,
  fulfilled or rejected; the spy's log holds that one call and the world is the one the
  client left.
  What is required: identifiers that are non-empty strings (\<open>i\<close>, \<open>j\<close>); a parameters
  object that is present (\<open>params\<close>) for \<^verbatim>\<open>update\<close>, \<^verbatim>\<open>createPlaybackId\<close> and
  \<^verbatim>\<open>updateEmbeddedSubtitles\<close>; for \<^verbatim>\<open>createSimulcastTarget\<close> a parameters object
  (\<open>target\<close>) that is present and whose \<^verbatim>\<open>url\<close> is present and non-empty; nothing for
  \<^verbatim>\<open>create\<close> and \<^verbatim>\<open>list\<close>.
\<close>

theorem valid_arguments_one_request:
  assumes "i \<noteq> []" and "j \<noteq> []" and "truthy params"
    and "truthy target" and "truthy (property target ''url'')"
  shows "observe (create anything) h w
        = one_request POST ''/video/v1/live-streams'' [anything] h w
    \<and> observe (update (Str i) params) h w
        = one_request PATCH (''/video/v1/live-streams/'' @ i) [params] h w
    \<and> observe (del (Str i)) h w
        = one_request DELETE (''/video/v1/live-streams/'' @ i) [] h w
    \<and> observe (get (Str i)) h w
        = one_request GET (''/video/v1/live-streams/'' @ i) [] h w
    \<and> observe (list anything) h w
        = one_request GET ''/video/v1/live-streams'' [JObject [(''params'', anything)]] h w
    \<and> observe (signalComplete (Str i)) h w
        = one_request PUT (''/video/v1/live-streams/'' @ i @ ''/complete'') [] h w
    \<and> observe (resetStreamKey (Str i)) h w
        = one_request POST (''/video/v1/live-streams/'' @ i @ ''/reset-stream-key'') [] h w
    \<and> observe (createPlaybackId (Str i) params) h w
        = one_request POST (''/video/v1/live-streams/'' @ i @ ''/playback-ids'') [params] h w
    \<and> observe (deletePlaybackId (Str i) (Str j)) h w
        = one_request DELETE (''/video/v1/live-streams/'' @ i @ ''/playback-ids/'' @ j) [] h w
    \<and> observe (playbackId (Str i) (Str j)) h w
        = one_request GET (''/video/v1/live-streams/'' @ i @ ''/playback-ids/'' @ j) [] h w
    \<and> observe (createSimulcastTarget (Str i) target) h w
        = one_request POST (''/video/v1/live-streams/'' @ i @ ''/simulcast-targets'')
            [target] h w
    \<and> observe (getSimulcastTarget (Str i) (Str j)) h w
        = one_request GET (''/video/v1/live-streams/'' @ i @ ''/simulcast-targets/'' @ j)
            [] h w
    \<and> observe (deleteSimulcastTarget (Str i) (Str j)) h w
        = one_request DELETE (''/video/v1/live-streams/'' @ i @ ''/simulcast-targets/'' @ j)
            [] h w
    \<and> observe (updateEmbeddedSubtitles (Str i) params) h w
        = one_request PUT (''/video/v1/live-streams/'' @ i @ ''/embedded-subtitles'')
            [params] h w
    \<and> observe (disable (Str i)) h w
        = one_request PUT (''/video/v1/live-streams/'' @ i @ ''/disable'') [] h w
    \<and> observe (enable (Str i)) h w
        = one_request PUT (''/video/v1/live-streams/'' @ i @ ''/enable'') [] h w"
  using assms
  by (simp add: operation_defs observe_request PATH_def buildBasePath_def)

theorem valid_arguments_one_request_witness:
  "''abc'' \<noteq> [] \<and> ''p1'' \<noteq> [] \<and> truthy (JObject [])
   \<and> truthy (JObject [(''url'', JString ''rtmp://live.example.com/app'')])
   \<and> truthy (property (JObject [(''url'', JString ''rtmp://live.example.com/app'')]) ''url'')
   \<and> observe (signalComplete (Str ''abc'')) refuse 0
       = (Rejected (Error ''Network Error''),
          [(PUT, ''/video/v1/live-streams/abc/complete'', [])], 1)
   \<and> observe (deletePlaybackId (Str ''abc'') (Str ''p1'')) refuse 0
       = (Rejected (Error ''Network Error''),
          [(DELETE, ''/video/v1/live-streams/abc/playback-ids/p1'', [])], 1)
   \<and> observe (createSimulcastTarget (Str ''abc'')
         (JObject [(''url'', JString ''rtmp://live.example.com/app'')])) refuse 0
       = (Rejected (Error ''Network Error''),
          [(POST, ''/video/v1/live-streams/abc/simulcast-targets'',
            [JObject [(''url'', JString ''rtmp://live.example.com/app'')]])], 1)"
  using valid_arguments_one_request [where i = "''abc''" and j = "''p1''"
      and params = "JObject []"
      and target = "JObject [(''url'', JString ''rtmp://live.example.com/app'')]"
      and h = refuse and w = 0]
  by (simp add: one_request_def refuse_def)

section \<open>The precondition of createSimulcastTarget\<close>

text \<open>
  C3 as stated fails. A parameters object that is present is not enough for
  \<^verbatim>\<open>createSimulcastTarget\<close>: with
  the identifier \<^verbatim>\<open>live1\<close> and the empty object \<^verbatim>\<open>{}\<close> the call is rejected and no
  request is made.
\<close>

theorem empty_params_object_rejected_counterexample:
  "truthy_str (Str ''live1'') \<and> truthy (JObject [])
   \<and> fst (observe (createSimulcastTarget (Str ''live1'') (JObject [])) echo 0)
       = Rejected (Error ''A url is required to create a simulcast target'')
   \<and> calls (createSimulcastTarget (Str ''live1'') (JObject [])) echo 0 = []"
  by (simp add: createSimulcastTarget_def observe_reject calls_reject no_request_def)

text \<open>
  C3, as the code has it. With a non-empty live stream identifier,
  \<^verbatim>\<open>createSimulcastTarget\<close> makes its one POST to
  \<^verbatim>\<open>/video/v1/live-streams/{liveStreamId}/simulcast-targets\<close> exactly when the parameters
  object is present and its \<^verbatim>\<open>url\<close> is present and non-empty (truthy); otherwise it
  rejects with \<^verbatim>\<open>A url is required to create a simulcast target\<close> and makes no request.
\<close>

theorem createSimulcastTarget_precondition:
  "(i \<noteq> [] \<and> truthy params \<and> truthy (property params ''url'') \<longrightarrow>
      observe (createSimulcastTarget (Str i) params) h w
        = one_request POST (''/video/v1/live-streams/'' @ i @ ''/simulcast-targets'')
            [params] h w)
   \<and> (i \<noteq> [] \<and> \<not> (truthy params \<and> truthy (property params ''url'')) \<longrightarrow>
      observe (createSimulcastTarget (Str i) params) h w
        = no_request ''A url is required to create a simulcast target'' w)"
  by (simp add: createSimulcastTarget_def observe_request observe_reject PATH_def
      buildBasePath_def)

theorem createSimulcastTarget_precondition_witness:
  "observe (createSimulcastTarget (Str ''live1'')
       (JObject [(''url'', JString ''rtmp://a''), (''stream_key'', JString ''k'')])) echo 0
     = (Fulfilled ''/video/v1/live-streams/live1/simulcast-targets'',
        [(POST, ''/video/v1/live-streams/live1/simulcast-targets'',
          [JObject [(''url'', JString ''rtmp://a''), (''stream_key'', JString ''k'')]])], 1)
   \<and> observe (createSimulcastTarget (Str ''live1'') (JObject [(''url'', JString [])])) echo 0
     = (Rejected (Error ''A url is required to create a simulcast target''), [], 0)"
  using createSimulcastTarget_precondition [where i = "''live1''"
      and params = "JObject [(''url'', JString ''rtmp://a''), (''stream_key'', JString ''k'')]"
      and h = echo and w = 0]
    createSimulcastTarget_precondition [where i = "''live1''"
      and params = "JObject [(''url'', JString [])]" and h = echo and w = 0]
  by (simp add: one_request_def no_request_def echo_def)

section \<open>Paths and verbs\<close>

text \<open>
  C4. \<^verbatim>\<open>buildBasePath\<close> of an identifier string is \<^verbatim>\<open>/video/v1/live-streams/\<close> followed by
  that string. The paths an operation requests are a function of the operation and its
  arguments alone: against any two clients, in any two worlds, they are the same.
\<close>

theorem path_construction_deterministic:
  "buildBasePath (Str i) = ''/video/v1/live-streams/'' @ i
   \<and> map (\<lambda>(v, p, as). p) (calls (invoke opn) h w)
       = map (\<lambda>(v, p, as). p) (calls (invoke opn) h' w')"
  by (cases opn) (simp_all add: operation_defs calls_reject calls_request PATH_def
      buildBasePath_def)

theorem path_construction_deterministic_witness:
  "buildBasePath (Str ''abc'') = ''/video/v1/live-streams/abc''
   \<and> map (\<lambda>(v, p, as). p) (calls (invoke (Update (Str ''abc'') (JObject []))) echo 0)
       = map (\<lambda>(v, p, as). p) (calls (invoke (Update (Str ''abc'') (JObject []))) refuse 7)"
  using path_construction_deterministic [where i = "''abc''"
      and opn = "Update (Str ''abc'') (JObject [])" and h = echo and w = 0
      and h' = refuse and w' = 7]
  by simp

text \<open>
  C5. Every call an operation makes on the client has a path that starts with
  \<^verbatim>\<open>/video/v1/live-streams\<close> and one of the verbs GET, POST, PATCH, PUT, DELETE.
\<close>

theorem request_prefix_and_verb:
  "(v, p, as) \<in> set (calls (invoke opn) h w) \<Longrightarrow>
     prefix ''/video/v1/live-streams'' p \<and> v \<in> {GET, POST, PATCH, PUT, DELETE}"
  by (cases opn) (auto simp add: operation_defs calls_reject calls_request PATH_def
      buildBasePath_def split: if_splits)

theorem request_prefix_and_verb_witness:
  "(PUT, ''/video/v1/live-streams/abc/enable'', []) \<in> set (calls (invoke (Enable (Str ''abc''))) echo 0)
   \<and> prefix ''/video/v1/live-streams'' ''/video/v1/live-streams/abc/enable''
   \<and> PUT \<in> {GET, POST, PATCH, PUT, DELETE}"
  using request_prefix_and_verb [where v = PUT and p = "''/video/v1/live-streams/abc/enable''"
      and as = "[]" and opn = "Enable (Str ''abc'')" and h = echo and w = 0]
  by (simp add: enable_def calls_request PATH_def buildBasePath_def)

section \<open>Frame\<close>

text \<open>
  C7. No operation assigns to a field of the object it is called on: after the call
  \<^verbatim>\<open>this\<close>, and with it the reference \<^verbatim>\<open>this.http\<close>, is what it was. What the client
  receives after the path is the \<^verbatim>\<open>params\<close> argument as the caller passed it
  (\<open>forwarded\<close>).
\<close>

theorem client_state_unchanged:
  "this (snd (invoke opn \<sigma>)) = this \<sigma>
   \<and> (\<forall>c \<in> set (calls (invoke opn) h w). snd (snd c) = forwarded opn)"
  by (cases opn) (simp_all add: operation_defs this_reject this_request calls_reject
      calls_request)

theorem client_state_unchanged_witness:
  "this (snd (invoke (Update (Str ''abc'') (JObject [(''latency_mode'', JString ''low'')]))
       \<lparr>this = \<lparr>http = echo\<rparr>, world = 0\<rparr>)) = \<lparr>http = echo\<rparr>
   \<and> (PATCH, ''/video/v1/live-streams/abc'', [JObject [(''latency_mode'', JString ''low'')]])
       \<in> set (calls (invoke (Update (Str ''abc'')
            (JObject [(''latency_mode'', JString ''low'')]))) echo 0)
   \<and> forwarded (Update (Str ''abc'') (JObject [(''latency_mode'', JString ''low'')]))
       = [JObject [(''latency_mode'', JString ''low'')]]"
  using client_state_unchanged [where
      opn = "Update (Str ''abc'') (JObject [(''latency_mode'', JString ''low'')])"
      and \<sigma> = "\<lparr>this = \<lparr>http = echo\<rparr>, world = 0\<rparr>" and h = echo and w = 0]
  by (simp add: update_def calls_request PATH_def buildBasePath_def)

end
